theory Spec2Isabelle
  imports Main "HOL-Library.Word"
begin

unbundle bit_operations_syntax

section \<open>NaN boxing: the data model of boxing.go\<close>

text \<open>
  A \<open>Box\<close> is a Go \<open>float64\<close>; every operation of the package reads or writes it through
  its 64-bit pattern (\<open>*(*uint64)(unsafe.Pointer(x))\<close>). The model therefore takes the raw
  IEEE-754 binary64 bit pattern as the value of a \<open>float64\<close> and of a \<open>Box\<close>.
\<close>

type_synonym uint8 = "8 word"
type_synonym int32 = "32 word"
type_synonym uint32 = "32 word"
type_synonym uint64 = "64 word"
type_synonym uintptr = "64 word"
type_synonym float64 = "64 word"
type_synonym Box = "64 word"
type_synonym Tag = "64 word"

definition TagNumber :: Tag where "TagNumber = 0x1"
definition tagString :: Tag where "tagString = 0x2"
definition TagBool :: Tag where "TagBool = 0x3"
definition TagArray :: Tag where "TagArray = 0x4"
definition TagObject :: Tag where "TagObject = 0x5"
definition TagNull :: Tag where "TagNull = 0xF"

definition TagMask :: uint64 where "TagMask = 0xF"
definition NaNMask :: uint64 where "NaNMask = 0x7FF8000000000000"
definition PayloadMask :: uint64 where "PayloadMask = 0x00007FFFFFFFFFFF"
definition TagShift :: nat where "TagShift = 47"

subsection \<open>The library function \<open>math.IsNaN\<close>\<close>

text \<open>
  \<open>math.IsNaN(f)\<close> is \<open>f != f\<close>, true exactly for the NaN encodings of binary64: the
  eleven exponent bits (62..52) all set and a fraction (bits 51..0) that is not zero.
  The sign bit plays no part.
\<close>

definition exponent_bits :: "float64 \<Rightarrow> uint64" where
  "exponent_bits f = drop_bit 52 f AND 0x7FF"

definition fraction_bits :: "float64 \<Rightarrow> uint64" where
  "fraction_bits f = f AND 0x000FFFFFFFFFFFFF"

definition IsNaN :: "float64 \<Rightarrow> bool" where
  "IsNaN f \<longleftrightarrow> exponent_bits f = 0x7FF \<and> fraction_bits f \<noteq> 0"

subsection \<open>Tag and payload\<close>

definition Tag :: "Box \<Rightarrow> Tag" where
  "Tag x = drop_bit TagShift x AND TagMask"

definition Payload :: "Box \<Rightarrow> uint64" where
  "Payload x = x AND PayloadMask"

text \<open>The mutators write through the receiver pointer; the model returns the new box.\<close>

definition SetTag :: "Box \<Rightarrow> Tag \<Rightarrow> Box" where
  "SetTag x t = NaNMask OR push_bit TagShift t OR (Payload x AND PayloadMask)"

definition SetPayload :: "Box \<Rightarrow> uint64 \<Rightarrow> Box" where
  "SetPayload x u = NaNMask OR push_bit TagShift (Tag x) OR (u AND PayloadMask)"

subsection \<open>Floats\<close>

definition NewFloat :: "float64 \<Rightarrow> Box" where
  "NewFloat f = f"

definition ToFloat :: "Box \<Rightarrow> float64" where
  "ToFloat x = x"

definition IsFloat64 :: "Box \<Rightarrow> bool" where
  "IsFloat64 x \<longleftrightarrow> \<not> IsNaN x"

subsection \<open>Numbers\<close>

text \<open>
  \<open>NewNumber\<close> reads the \<open>int32\<close> as a \<open>uint32\<close> (the same 32 bits) and widens it to
  \<open>uint64\<close> without sign; \<open>ToNumber\<close> truncates the payload to 32 bits.
\<close>

definition NewNumber :: "int32 \<Rightarrow> Box" where
  "NewNumber n =
     (let ui = (n :: uint32)
      in NaNMask OR push_bit TagShift TagNumber OR ((ucast ui :: uint64) AND PayloadMask))"

definition ToNumber :: "Box \<Rightarrow> int32" where
  "ToNumber x = ucast (Payload x)"

definition IsNumber :: "Box \<Rightarrow> bool" where
  "IsNumber x \<longleftrightarrow> \<not> IsFloat64 x \<and> Tag x = TagNumber"

subsection \<open>Booleans\<close>

text \<open>A Go \<open>bool\<close> is one byte, 1 for \<open>true\<close> and 0 for \<open>false\<close>; \<open>NewBool\<close> reads that byte.\<close>

definition bool_byte :: "bool \<Rightarrow> uint8" where
  "bool_byte b = (if b then 1 else 0)"

definition NewBool :: "bool \<Rightarrow> Box" where
  "NewBool b =
     (let ui = bool_byte b
      in NaNMask OR push_bit TagShift TagBool OR ((ucast ui :: uint64) AND PayloadMask))"

definition ToBool :: "Box \<Rightarrow> bool" where
  "ToBool x \<longleftrightarrow> \<not> (0 = Payload x)"

definition IsBool :: "Box \<Rightarrow> bool" where
  "IsBool x \<longleftrightarrow> \<not> IsFloat64 x \<and> Tag x = TagBool"

subsection \<open>Null\<close>

definition NewNull :: Box where
  "NewNull = NaNMask OR push_bit TagShift TagNull OR (0 AND PayloadMask)"

definition IsNull :: "Box \<Rightarrow> bool" where
  "IsNull x \<longleftrightarrow> \<not> IsFloat64 x \<and> Tag x = TagNull"

subsection \<open>References: strings, arrays and objects\<close>

text \<open>
  A Go slice value (\<open>type Array []Box\<close>) is a header: the address of a backing array, a
  length and a capacity. A Go map value (\<open>type Object map[string]Box\<close>) is the address of
  a hash table. Copying either copies the handle, never the contents, so two copies are
  the same referent exactly when the handles are equal. A Go string is immutable and is
  modelled by its contents.
\<close>

datatype Array = Slice (slice_data: uintptr) (slice_len: nat) (slice_cap: nat)

datatype Object = MapRef (map_table: uintptr)

text \<open>
  The reference constructors take the address of their own parameter
  (\<open>uintptr(unsafe.Pointer(&s))\<close>) and the accessors load from the address held in the
  payload. The memory is explicit: \<open>variables\<close> maps an address to the live variable
  stored there, \<open>backing\<close> and \<open>tables\<close> hold the contents that slice headers and map
  handles refer to. The address of the parameter is chosen by the Go runtime, so it is an
  argument of the model.
\<close>

datatype variable = StringVar string | ArrayVar Array | ObjectVar Object

record memory =
  variables :: "uintptr \<rightharpoonup> variable"
  backing :: "uintptr \<rightharpoonup> Box list"
  tables :: "uintptr \<rightharpoonup> (string \<rightharpoonup> Box)"

text \<open>
  The parameter of a constructor is passed by value: it is a variable of the
  constructor's own frame, alive at its address during the call and dead once the
  constructor returns. The \<open>uintptr\<close> kept in the payload is a number, not a pointer, and
  keeps nothing alive.
\<close>

definition enter_param :: "uintptr \<Rightarrow> variable \<Rightarrow> memory \<Rightarrow> memory" where
  "enter_param p v mem = mem\<lparr>variables := (variables mem)(p \<mapsto> v)\<rparr>"

definition leave_param :: "uintptr \<Rightarrow> memory \<Rightarrow> memory" where
  "leave_param p mem = mem\<lparr>variables := (variables mem)(p := None)\<rparr>"

text \<open>
  A load through a pointer of the wrong type, or from an address that holds no live
  variable, has no defined result in Go (a run may fault or return whatever the runtime
  has put there since): \<open>None\<close>.
\<close>

definition NewString :: "string \<Rightarrow> uintptr \<Rightarrow> memory \<Rightarrow> Box \<times> memory" where
  "NewString s p mem =
     (let called = enter_param p (StringVar s) mem;
          ui64 = NaNMask OR push_bit TagShift tagString OR (p AND PayloadMask)
      in (ui64, leave_param p called))"

definition ToString :: "Box \<Rightarrow> memory \<Rightarrow> string option" where
  "ToString x mem =
     (case variables mem (Payload x) of Some (StringVar s) \<Rightarrow> Some s | _ \<Rightarrow> None)"

definition IsString :: "Box \<Rightarrow> bool" where
  "IsString x \<longleftrightarrow> \<not> IsFloat64 x \<and> Tag x = tagString"

definition NewArray :: "Array \<Rightarrow> uintptr \<Rightarrow> memory \<Rightarrow> Box \<times> memory" where
  "NewArray a p mem =
     (let called = enter_param p (ArrayVar a) mem;
          ui64 = NaNMask OR push_bit TagShift TagArray OR (p AND PayloadMask)
      in (ui64, leave_param p called))"


definition IsArray :: "Box \<Rightarrow> bool" where
  "IsArray x \<longleftrightarrow> \<not> IsFloat64 x \<and> Tag x = TagArray"

definition NewObject :: "Object \<Rightarrow> uintptr \<Rightarrow> memory \<Rightarrow> Box \<times> memory" where
  "NewObject ob p mem =
     (let called = enter_param p (ObjectVar ob) mem;
          ui64 = NaNMask OR push_bit TagShift TagObject OR (p AND PayloadMask)
      in (ui64, leave_param p called))"


definition IsObject :: "Box \<Rightarrow> bool" where
  "IsObject x \<longleftrightarrow> \<not> IsFloat64 x \<and> Tag x = TagObject"

definition IsPointer :: "Box \<Rightarrow> bool" where
  "IsPointer x \<longleftrightarrow> \<not> IsFloat64 x \<and> (Tag x = TagArray \<or> Tag x = TagObject)"

definition ToPointer :: "Box \<Rightarrow> uintptr" where
  "ToPointer x = Payload x"

subsection \<open>The seven type predicates of a box\<close>

definition predicates :: "Box \<Rightarrow> bool list" where
  "predicates x =
     [IsFloat64 x, IsNumber x, IsBool x, IsString x, IsArray x, IsObject x, IsNull x]"

definition exactly_one :: "Box \<Rightarrow> bool" where
  "exactly_one x \<longleftrightarrow> length (filter id (predicates x)) = 1"

subsection \<open>The spec's description of a colliding NaN\<close>

text \<open>
  The specification speaks of a float that "collides with the boxed encoding": a quiet
  NaN carrying the NaN mask. This predicate follows those words, to be compared with
  what \<open>IsFloat64\<close> computes.
\<close>

definition spec_carries_NaNMask :: "float64 \<Rightarrow> bool" where
  "spec_carries_NaNMask f \<longleftrightarrow> f AND NaNMask = NaNMask"

subsection \<open>The memory of the package's tests\<close>

text \<open>
  \<open>TestObject\<close> builds a map with \<open>key1 \<mapsto> NewNumber(1)\<close> and \<open>key2 \<mapsto> NewNumber(2)\<close>,
  \<open>TestArray\<close> a slice of the same two boxes. Both are held by variables of the test
  (\<open>arraySource\<close>, \<open>objectSource\<close>) and so are live throughout. The addresses are
  examples of what the runtime hands out.
\<close>

definition objectSource :: Object where
  "objectSource = MapRef 0xC000100000"

definition arraySource :: Array where
  "arraySource = Slice 0xC000200000 2 2"

definition test_memory :: memory where
  "test_memory =
     \<lparr>variables = [0xC000012300 \<mapsto> ArrayVar arraySource, 0xC000012318 \<mapsto> ObjectVar objectSource],
      backing = [0xC000200000 \<mapsto> [NewNumber 1, NewNumber 2]],
      tables = [0xC000100000 \<mapsto> [''key1'' \<mapsto> NewNumber 1, ''key2'' \<mapsto> NewNumber 2]]\<rparr>"

section \<open>Bit-level facts about the masks\<close>

lemma PayloadMask_mask: "PayloadMask = mask 47"
  by (simp add: PayloadMask_def mask_eq_exp_minus_1)

lemma TagMask_mask: "TagMask = mask 4"
  by (simp add: TagMask_def mask_eq_exp_minus_1)

lemma NaNMask_push: "NaNMask = push_bit 51 (mask 12)"
  by (simp add: NaNMask_def mask_eq_exp_minus_1 push_bit_eq_mult)

lemma bit_NaNMask: "bit NaNMask n \<longleftrightarrow> 51 \<le> n \<and> n < 63"
  by (auto simp add: NaNMask_push bit_simps)

lemma bit_PayloadMask: "bit PayloadMask n \<longleftrightarrow> n < 47"
  by (auto simp add: PayloadMask_mask bit_simps)

lemma Tag_SetTag: "Tag (SetTag x t) = t AND TagMask"
  unfolding Payload_def SetTag_def Tag_def TagShift_def TagMask_mask
  by (rule bit_eqI) (auto simp add: bit_simps bit_NaNMask bit_PayloadMask)

lemma unat_AND_TagMask: "unat (t AND TagMask) = unat t mod 16"
proof -
  have "unat (t AND mask 4) = unat (take_bit 4 t)"
    by (simp only: take_bit_eq_mask)
  also have "\<dots> = take_bit 4 (unat t)"
    by (rule unsigned_take_bit_eq)
  also have "\<dots> = unat t mod 16"
    by (simp add: take_bit_eq_mod)
  finally show ?thesis by (simp only: TagMask_mask)
qed

lemma exponent_all_ones: "exponent_bits f = 0x7FF \<longleftrightarrow> (\<forall>n. 52 \<le> n \<and> n < 63 \<longrightarrow> bit f n)"
proof -
  have m: "(0x7FF :: uint64) = mask 11"
    by (simp add: mask_eq_exp_minus_1)
  show ?thesis
  proof
    assume e: "exponent_bits f = 0x7FF"
    show "\<forall>n. 52 \<le> n \<and> n < 63 \<longrightarrow> bit f n"
    proof (intro allI impI)
      fix n :: nat
      assume n: "52 \<le> n \<and> n < 63"
      then have k: "n - 52 < 11" "52 + (n - 52) = n" by arith+
      have "bit (exponent_bits f) (n - 52)"
        using k by (simp only: e m) (simp add: bit_simps)
      then show "bit f n"
        using k by (simp add: exponent_bits_def m bit_simps)
    qed
  next
    assume a: "\<forall>n. 52 \<le> n \<and> n < 63 \<longrightarrow> bit f n"
    show "exponent_bits f = 0x7FF"
      unfolding exponent_bits_def m
      by (rule bit_eqI) (use a in \<open>auto simp add: bit_simps\<close>)
  qed
qed

lemma fraction_nonzero: "fraction_bits f \<noteq> 0 \<longleftrightarrow> (\<exists>n<52. bit f n)"
proof -
  have m: "(0x000FFFFFFFFFFFFF :: uint64) = mask 52"
    by (simp add: mask_eq_exp_minus_1)
  have "f AND mask 52 = 0 \<longleftrightarrow> (\<forall>n<52. \<not> bit f n)"
  proof
    assume z: "f AND mask 52 = 0"
    show "\<forall>n<52. \<not> bit f n"
    proof (intro allI impI notI)
      fix n :: nat
      assume "n < 52" "bit f n"
      then have "bit (f AND mask 52) n" by (simp add: bit_simps)
      then show False by (simp add: z)
    qed
  next
    assume "\<forall>n<52. \<not> bit f n"
    then show "f AND mask 52 = 0"
      by (intro bit_eqI) (auto simp add: bit_simps)
  qed
  then show ?thesis
    by (simp only: fraction_bits_def m) blast
qed

lemma IsNaN_bits: "IsNaN f \<longleftrightarrow> (\<forall>n. 52 \<le> n \<and> n < 63 \<longrightarrow> bit f n) \<and> (\<exists>n<52. bit f n)"
  by (simp only: IsNaN_def exponent_all_ones fraction_nonzero)

lemma NaNMask_IsNaN: "x AND NaNMask = NaNMask \<Longrightarrow> IsNaN x"
proof -
  assume a: "x AND NaNMask = NaNMask"
  have b: "bit x n" if "51 \<le> n" "n < 63" for n
  proof -
    have "bit (x AND NaNMask) n" using that by (simp only: a bit_NaNMask) 
    then show ?thesis by (simp add: bit_and_iff)
  qed
  have "bit x 51" by (rule b) simp_all
  then have "\<exists>n<52. bit x n" by (intro exI[of _ 51]) simp
  then show ?thesis
    unfolding IsNaN_bits using b by simp
qed

lemma IsNaN_OR: "IsNaN (NaNMask OR y)"
  by (rule NaNMask_IsNaN) (rule bit_eqI, auto simp add: bit_simps)


section \<open>What every constructor and mutator packs\<close>

text \<open>
  Every boxed value is built as \<open>NaNMask | (tag << TagShift) | (bits & PayloadMask)\<close>.
  The three fields do not overlap: the tag reads back modulo 16, the payload reads back
  masked, and the result is a NaN.
\<close>

lemma Tag_pack: "Tag (NaNMask OR push_bit TagShift t OR (y AND PayloadMask)) = t AND TagMask"
  unfolding Tag_def TagShift_def TagMask_mask
  by (rule bit_eqI) (auto simp add: bit_simps bit_NaNMask bit_PayloadMask)

lemma Payload_pack:
  "Payload (NaNMask OR push_bit TagShift t OR (y AND PayloadMask)) = y AND PayloadMask"
  unfolding Payload_def TagShift_def
  by (rule bit_eqI) (auto simp add: bit_simps bit_NaNMask bit_PayloadMask)

lemma not_float_pack: "\<not> IsFloat64 (NaNMask OR z)"
  by (simp add: IsFloat64_def IsNaN_OR)

lemma tags_masked:
  "TagNumber AND TagMask = TagNumber" "tagString AND TagMask = tagString"
  "TagBool AND TagMask = TagBool" "TagArray AND TagMask = TagArray"
  "TagObject AND TagMask = TagObject" "TagNull AND TagMask = TagNull"
  by (simp_all add: TagNumber_def tagString_def TagBool_def TagArray_def TagObject_def
      TagNull_def TagMask_def)

lemma tags_distinct:
  "TagNumber \<noteq> tagString" "TagNumber \<noteq> TagBool" "TagNumber \<noteq> TagArray"
  "TagNumber \<noteq> TagObject" "TagNumber \<noteq> TagNull" "tagString \<noteq> TagBool"
  "tagString \<noteq> TagArray" "tagString \<noteq> TagObject" "tagString \<noteq> TagNull"
  "TagBool \<noteq> TagArray" "TagBool \<noteq> TagObject" "TagBool \<noteq> TagNull"
  "TagArray \<noteq> TagObject" "TagArray \<noteq> TagNull" "TagObject \<noteq> TagNull"
  by (simp_all add: TagNumber_def tagString_def TagBool_def TagArray_def TagObject_def
      TagNull_def)

lemma Tag_NewNumber: "Tag (NewNumber n) = TagNumber"
  by (simp add: NewNumber_def Tag_pack tags_masked)

lemma Payload_NewNumber: "Payload (NewNumber n) = ucast n"
proof -
  have "Payload (NewNumber n) = (ucast n :: uint64) AND PayloadMask"
    by (simp add: NewNumber_def Payload_pack)
  also have "\<dots> = ucast n"
    unfolding PayloadMask_mask
    by (rule bit_eqI) (auto simp add: bit_simps dest: bit_imp_le_length)
  finally show ?thesis .
qed

lemma ucast_down_up: "(ucast (ucast (n :: 32 word) :: 64 word) :: 32 word) = n"
  by (rule bit_eqI) (auto simp add: bit_simps)

lemma unat_Payload_NewNumber: "unat (Payload (NewNumber n)) = unat n"
proof -
  have "unat n < 2 ^ 32"
    using unsigned_less [of n, where ?'a = nat] by simp
  then have "take_bit 64 (unat n) = unat n"
    by (simp add: take_bit_nat_eq_self_iff)
  then show ?thesis
    by (simp add: Payload_NewNumber unsigned_ucast_eq)
qed

lemma Payload_SetTag: "Payload (SetTag x t) = Payload x"
  by (simp add: SetTag_def Payload_pack) (simp add: Payload_def and.assoc)

lemma Tag_SetPayload: "Tag (SetPayload x u) = Tag x"
  by (simp add: SetPayload_def Tag_pack) (simp add: Tag_def and.assoc)

lemma not_float_SetTag: "\<not> IsFloat64 (SetTag x t)"
  by (simp add: SetTag_def not_float_pack or.assoc)

lemma not_float_SetPayload: "\<not> IsFloat64 (SetPayload x u)"
  by (simp add: SetPayload_def not_float_pack or.assoc)

lemma NaNMask_kept: "(NaNMask OR z) AND NaNMask = NaNMask"
  by (rule bit_eqI) (auto simp add: bit_simps)

lemma NewBool_True: "NewBool True = NaNMask OR push_bit TagShift TagBool OR (1 AND PayloadMask)"
  by (simp add: NewBool_def bool_byte_def)

lemma NewBool_False: "NewBool False = NaNMask OR push_bit TagShift TagBool OR (0 AND PayloadMask)"
  by (simp add: NewBool_def bool_byte_def)

lemma Tag_NewBool: "Tag (NewBool b) = TagBool"
  by (cases b) (simp_all only: NewBool_True NewBool_False Tag_pack tags_masked)

lemma not_float_NewBool: "\<not> IsFloat64 (NewBool b)"
  by (simp add: NewBool_def not_float_pack or.assoc)

lemma Payload_NewBool: "Payload (NewBool b) = (if b then 1 else 0)"
  by (cases b) (simp_all only: NewBool_True NewBool_False Payload_pack, simp_all add: PayloadMask_def)

lemma Payload_SetPayload: "Payload (SetPayload x u) = u AND PayloadMask"
  by (simp add: SetPayload_def Payload_pack)

section \<open>The reference constructors\<close>

text \<open>
  The box a reference constructor returns depends on the address of its parameter only;
  the memory it leaves holds no variable at that address and is otherwise the one it
  found.
\<close>

lemma box_NewString: "fst (NewString s p mem) = NaNMask OR push_bit TagShift tagString OR (p AND PayloadMask)"
  by (simp add: NewString_def Let_def)

lemma box_NewArray: "fst (NewArray a p mem) = NaNMask OR push_bit TagShift TagArray OR (p AND PayloadMask)"
  by (simp add: NewArray_def Let_def)

lemma box_NewObject: "fst (NewObject ob p mem) = NaNMask OR push_bit TagShift TagObject OR (p AND PayloadMask)"
  by (simp add: NewObject_def Let_def)

lemma Tag_references:
  "Tag (fst (NewString s p mem)) = tagString"
  "Tag (fst (NewArray a p mem)) = TagArray"
  "Tag (fst (NewObject ob p mem)) = TagObject"
  by (simp_all only: box_NewString box_NewArray box_NewObject Tag_pack tags_masked)

lemma not_float_references:
  "\<not> IsFloat64 (fst (NewString s p mem))"
  "\<not> IsFloat64 (fst (NewArray a p mem))"
  "\<not> IsFloat64 (fst (NewObject ob p mem))"
  by (simp_all only: box_NewString box_NewArray box_NewObject or.assoc not_float_pack
      not_False_eq_True)


lemma not_float_NewNumber: "\<not> IsFloat64 (NewNumber n)"
  by (simp add: NewNumber_def not_float_pack or.assoc)

lemma Tag_NewNull: "Tag NewNull = TagNull"
  by (simp only: NewNull_def Tag_pack tags_masked)

lemma not_float_NewNull: "\<not> IsFloat64 NewNull"
  by (simp only: NewNull_def or.assoc not_float_pack) simp

lemmas is_defs = IsNumber_def IsBool_def IsString_def IsArray_def IsObject_def IsNull_def

lemma exactly_one_float: "IsFloat64 x \<Longrightarrow> exactly_one x"
  by (simp add: exactly_one_def predicates_def is_defs)

lemma exactly_one_boxed:
  "\<not> IsFloat64 x \<Longrightarrow> Tag x \<in> {TagNumber, TagBool, tagString, TagArray, TagObject, TagNull}
   \<Longrightarrow> exactly_one x"
  using tags_distinct tags_distinct [symmetric]
  by (auto simp add: exactly_one_def predicates_def is_defs)





section \<open>The claims\<close>

text \<open>
  C1. For every \<open>int32\<close> value \<open>n\<close>, the bounds included, \<open>ToNumber (NewNumber n) = n\<close>,
  \<open>IsNumber (NewNumber n)\<close> holds and \<open>IsFloat64 (NewNumber n)\<close> does not. The payload is
  the unsigned reading of the 32 bits of \<open>n\<close>: the bits are copied, the sign is not
  extended into the upper payload bits.
\<close>

theorem C1_number_roundtrip:
  "ToNumber (NewNumber n) = n \<and> IsNumber (NewNumber n) \<and> \<not> IsFloat64 (NewNumber n)
   \<and> unat (Payload (NewNumber n)) = unat n"
proof -
  have nf: "\<not> IsFloat64 (NewNumber n)"
    by (simp add: NewNumber_def not_float_pack or.assoc)
  have rt: "ToNumber (NewNumber n) = n"
    by (simp add: ToNumber_def Payload_NewNumber ucast_down_up)
  have isn: "IsNumber (NewNumber n)"
    by (simp add: IsNumber_def nf Tag_NewNumber)
  from rt isn nf unat_Payload_NewNumber [of n] show ?thesis
    by blast
qed

text \<open>
  C2. The claim has \<open>IsPointer\<close> true for String boxes as well as Array and Object
  boxes. \<open>NewString\<close> saves a pointer in the payload as \<open>NewArray\<close> and \<open>NewObject\<close> do,
  and the box it returns is a String box; \<open>IsPointer\<close> tests the tag against
  \<open>TagArray\<close> and \<open>TagObject\<close> only, so it is false on every String box and true on
  every Array and Object box.
\<close>

theorem C2_IsPointer_misses_String:
  "IsString (fst (NewString s p mem)) \<and> \<not> IsPointer (fst (NewString s p mem))
   \<and> IsPointer (fst (NewArray a p mem)) \<and> IsPointer (fst (NewObject ob p mem))"
  using tags_distinct
  by (simp add: IsString_def IsPointer_def Tag_references not_float_references)

text \<open>
  C3. \<open>SetTag\<close> leaves the payload as it was, \<open>SetPayload\<close> leaves the tag as it was,
  and the result of either carries the NaN mask and is not a float, whatever the box was
  before. On a Number box, setting the tag to String gives tag String over the same
  payload, and setting it back to Number gives back the number.
\<close>

theorem C3_mutators_frame:
  "Payload (SetTag x t) = Payload x
   \<and> Tag (SetPayload x u) = Tag x
   \<and> SetTag x t AND NaNMask = NaNMask \<and> \<not> IsFloat64 (SetTag x t)
   \<and> SetPayload x u AND NaNMask = NaNMask \<and> \<not> IsFloat64 (SetPayload x u)
   \<and> Tag (SetTag (NewNumber n) tagString) = tagString
   \<and> Payload (SetTag (NewNumber n) tagString) = Payload (NewNumber n)
   \<and> ToNumber (SetTag (SetTag (NewNumber n) tagString) TagNumber) = n"
proof -
  have m1: "SetTag x t AND NaNMask = NaNMask"
    by (simp add: SetTag_def NaNMask_kept or.assoc)
  have m2: "SetPayload x u AND NaNMask = NaNMask"
    by (simp add: SetPayload_def NaNMask_kept or.assoc)
  have r: "ToNumber (SetTag (SetTag (NewNumber n) tagString) TagNumber) = n"
    by (simp add: ToNumber_def Payload_SetTag Payload_NewNumber ucast_down_up)
  show ?thesis
    by (simp add: Payload_SetTag Tag_SetPayload m1 m2 not_float_SetTag not_float_SetPayload
        Tag_SetTag tags_masked r)
qed

text \<open>
  C4. On the box of every constructor (\<open>NewFloat\<close> on an input that is not a NaN,
  \<open>NewNumber\<close>, \<open>NewBool\<close>, \<open>NewString\<close>, \<open>NewArray\<close>, \<open>NewObject\<close>, \<open>NewNull\<close>)
  exactly one of \<open>IsFloat64\<close>, \<open>IsNumber\<close>, \<open>IsBool\<close>, \<open>IsString\<close>, \<open>IsArray\<close>,
  \<open>IsObject\<close>, \<open>IsNull\<close> is true.
\<close>

theorem C4_exactly_one_predicate:
  "(\<not> IsNaN f \<longrightarrow> exactly_one (NewFloat f))
   \<and> exactly_one (NewNumber n)
   \<and> exactly_one (NewBool v)
   \<and> exactly_one (fst (NewString s p mem))
   \<and> exactly_one (fst (NewArray a q mem))
   \<and> exactly_one (fst (NewObject ob r mem))
   \<and> exactly_one NewNull"
proof -
  have fl: "\<not> IsNaN f \<longrightarrow> exactly_one (NewFloat f)"
    by (simp add: exactly_one_float IsFloat64_def NewFloat_def)
  have nu: "exactly_one (NewNumber n)"
    by (rule exactly_one_boxed) (simp_all add: Tag_NewNumber not_float_NewNumber)
  have bo: "exactly_one (NewBool v)"
    by (rule exactly_one_boxed) (simp_all add: Tag_NewBool not_float_NewBool)
  have st: "exactly_one (fst (NewString s p mem))"
    by (rule exactly_one_boxed) (simp_all add: Tag_references not_float_references)
  have ar: "exactly_one (fst (NewArray a q mem))"
    by (rule exactly_one_boxed) (simp_all add: Tag_references not_float_references)
  have ob: "exactly_one (fst (NewObject ob r mem))"
    by (rule exactly_one_boxed) (simp_all add: Tag_references not_float_references)
  have nl: "exactly_one NewNull"
    by (rule exactly_one_boxed) (simp_all add: Tag_NewNull not_float_NewNull)
  from fl nu bo st ar ob nl show ?thesis by blast
qed

text \<open>The float 1.0 is not a NaN, and \<open>IsFloat64\<close> is the one predicate true on it.\<close>

theorem C4_exactly_one_predicate_witness:
  "\<not> IsNaN 0x3FF0000000000000 \<and> exactly_one (NewFloat 0x3FF0000000000000)
   \<and> predicates (NewFloat 0x3FF0000000000000) = [True, False, False, False, False, False, False]
   \<and> exactly_one (NewNumber 12)
   \<and> exactly_one (fst (NewArray arraySource 0xC000012340 test_memory))"
proof -
  have h: "\<not> IsNaN 0x3FF0000000000000"
    by (simp add: IsNaN_def exponent_bits_def fraction_bits_def)
  have p: "predicates (NewFloat 0x3FF0000000000000) = [True, False, False, False, False, False, False]"
    by (simp add: predicates_def is_defs IsFloat64_def NewFloat_def h)
  from h p C4_exactly_one_predicate [of "0x3FF0000000000000" 12 True "''Once''" "0xC000012340"
      test_memory arraySource "0xC000012340" objectSource "0xC000012340"]
  show ?thesis by blast
qed

text \<open>
  C5 as stated fails: \<open>IsFloat64\<close> is \<open>!math.IsNaN\<close>, so it is false on every NaN, also
  on one that does not carry the NaN mask. The signalling NaN \<open>0x7FF0000000000001\<close> has
  the quiet bit clear, so it is no boxed encoding, and \<open>IsFloat64\<close> is false on it.
\<close>

theorem C5_counterexample:
  "\<not> IsFloat64 (NewFloat 0x7FF0000000000001) \<and> \<not> spec_carries_NaNMask 0x7FF0000000000001"
  by (simp add: IsFloat64_def NewFloat_def IsNaN_def exponent_bits_def fraction_bits_def
      spec_carries_NaNMask_def NaNMask_def)

text \<open>
  C5, amended. \<open>NewFloat\<close> returns its input unchanged, and \<open>IsFloat64 (NewFloat f)\<close>
  is true exactly when \<open>f\<close> is not a NaN, that is, unless the exponent bits of \<open>f\<close> are
  all set and its fraction is not zero. Every float that carries the NaN mask is among
  the NaNs, so it is reported as not a float.
\<close>

theorem C5_NewFloat_IsFloat64:
  "NewFloat f = f
   \<and> (IsFloat64 (NewFloat f) \<longleftrightarrow> \<not> (exponent_bits f = 0x7FF \<and> fraction_bits f \<noteq> 0))
   \<and> (spec_carries_NaNMask f \<longrightarrow> \<not> IsFloat64 (NewFloat f))"
  by (auto simp add: NewFloat_def IsFloat64_def IsNaN_def [symmetric] spec_carries_NaNMask_def
      dest: NaNMask_IsNaN)

text \<open>The bits of Go's \<open>math.NaN()\<close> carry the NaN mask.\<close>

theorem C5_NewFloat_IsFloat64_witness:
  "spec_carries_NaNMask 0x7FF8000000000001 \<and> \<not> IsFloat64 (NewFloat 0x7FF8000000000001)"
proof -
  have h: "spec_carries_NaNMask 0x7FF8000000000001"
    by (simp add: spec_carries_NaNMask_def NaNMask_def)
  with C5_NewFloat_IsFloat64 [of "0x7FF8000000000001"] show ?thesis by blast
qed

text \<open>
  C6. \<open>ToBool (NewBool True)\<close> is true and \<open>ToBool (NewBool False)\<close> is false; both
  boxes are boxed values (not floats) with tag \<open>TagBool\<close>.
\<close>

theorem C6_bool_roundtrip:
  "ToBool (NewBool True) = True \<and> ToBool (NewBool False) = False
   \<and> \<not> IsFloat64 (NewBool True) \<and> \<not> IsFloat64 (NewBool False)
   \<and> Tag (NewBool True) = TagBool \<and> Tag (NewBool False) = TagBool"
  by (simp add: ToBool_def Payload_NewBool not_float_NewBool Tag_NewBool)

text \<open>
  C7. The null box satisfies \<open>IsNull\<close> and its payload is zero.
\<close>

theorem C7_null:
  "IsNull NewNull \<and> Payload NewNull = 0"
proof -
  have "Tag NewNull = TagNull"
    by (simp only: NewNull_def Tag_pack tags_masked)
  moreover have "Payload NewNull = 0"
    by (simp only: NewNull_def Payload_pack) simp
  moreover have "\<not> IsFloat64 NewNull"
    by (simp only: NewNull_def or.assoc not_float_pack) simp
  ultimately show ?thesis
    by (simp add: IsNull_def)
qed


text \<open>
  C9. \<open>SetTag\<close> takes any 64-bit tag value without a check: afterwards the tag of the
  box is the given value modulo 16 (its low four bits) and the box is not a float.
\<close>

theorem C9_SetTag_any_tag:
  "unat (Tag (SetTag x t)) = unat t mod 16 \<and> Tag (SetTag x t) = t AND TagMask
   \<and> \<not> IsFloat64 (SetTag x t)"
  by (simp add: Tag_SetTag unat_AND_TagMask not_float_SetTag)

text \<open>
  C10. \<open>ToBool\<close> is true exactly when the whole payload is not zero. After
  \<open>SetPayload\<close> with 2 on any box the lowest payload bit is 0 and \<open>ToBool\<close> is true; a
  Bool box stays a Bool box under it.
\<close>

theorem C10_ToBool_whole_payload:
  "ToBool x = (Payload x \<noteq> 0)
   \<and> ToBool (SetPayload y 2) = True
   \<and> \<not> bit (Payload (SetPayload y 2)) 0
   \<and> IsBool (SetPayload (NewBool v) 2)"
proof -
  have p: "Payload (SetPayload y 2) = 2"
    by (simp add: Payload_SetPayload PayloadMask_def)
  show ?thesis
    by (auto simp add: ToBool_def p IsBool_def not_float_SetPayload Tag_SetPayload Tag_NewBool)
qed

end
